theory Spec2Isabelle
  imports Main
begin

section \<open>Values of the source language\<close>

text \<open>
  A Python \<open>str\<close> is a sequence of Unicode code points, a primary key is a natural
  number, and a timestamp is a point on a discrete clock. \<open>str\<close> turns an ASCII literal
  into its code points; a literal with an accented letter is written with the code point
  of the letter (\<open>243\<close> is LATIN SMALL LETTER O WITH ACUTE).
\<close>

type_synonym pk = nat
type_synonym pystr = "nat list"
type_synonym datetime = nat

definition str :: "string \<Rightarrow> pystr" where
  "str s = map of_char s"

text \<open>\<open>s.startswith(p)\<close> and the substring test \<open>p in s\<close>.\<close>

fun startswith :: "pystr \<Rightarrow> pystr \<Rightarrow> bool" where
  "startswith s [] = True"
| "startswith [] (c # p) = False"
| "startswith (a # s) (c # p) = (a = c \<and> startswith s p)"

fun contains :: "pystr \<Rightarrow> pystr \<Rightarrow> bool" where
  "contains [] p = (p = [])"
| "contains (a # s) p = (startswith (a # s) p \<or> contains s p)"

text \<open>
  \<open>str.lower()\<close> is the Unicode lower-casing of the Python runtime. The functions below
  that call it take it as their first argument \<open>lower\<close>, so that what is proved of them
  holds for the runtime's function whatever it does on each code point. On ASCII text it
  is \<open>ascii_lower\<close>, which the concrete runs use.
\<close>

definition ascii_lower :: "pystr \<Rightarrow> pystr" where
  "ascii_lower s = map (\<lambda>c. if 65 \<le> c \<and> c \<le> 90 then c + 32 else c) s"

section \<open>Data model (core/models.py, workflow/models.py)\<close>

record WorkflowState =
  ws_id :: pk
  ws_name :: pystr
  ws_is_final :: bool
  ws_order :: nat

record Department =
  dept_id :: pk
  dept_name :: pystr
  dept_code :: pystr
  dept_workflow_order :: nat
  dept_response_time_hours :: nat
  dept_is_active :: bool

record User =
  user_id :: pk
  is_superuser :: bool
  user_role :: pystr
  user_department :: "pk option"
  user_is_active :: bool

text \<open>\<open>Expediente.EXPEDIENTE_STATES\<close>, the values of \<open>estado_actual\<close>.\<close>

datatype estado_expediente =
  Iniciado | En_revision | Aprobado | Rechazado | Completado | En_apelacion

record Expediente =
  exp_id :: pk
  numero_expediente :: pystr
  estado_actual :: estado_expediente
  departamento_actual :: Department
  estado_workflow :: WorkflowState
  creado_por :: pk
  fecha_completado :: "datetime option"

record WorkflowTransition =
  tr_expediente :: pk
  desde_estado :: "WorkflowState option"
  hacia_estado :: WorkflowState
  desde_departamento :: "Department option"
  hacia_departamento :: Department
  tr_usuario :: pk
  comentarios :: pystr
  motivo_rechazo :: pystr

text \<open>\<open>Task.TASK_STATUS\<close>, the values of \<open>estado\<close>.\<close>

datatype estado_tarea = Pendiente | En_progreso | Completada | Cancelada | Bloqueada

record Task =
  task_id :: pk
  task_expediente :: pk
  task_departamento :: pk
  usuario_asignado :: "pk option"
  titulo :: pystr
  estado :: estado_tarea
  fecha_completacion :: "datetime option"
  resultado :: pystr

record TaskDependency =
  td_task :: pk
  td_depends_on :: pk
  dependency_type :: pystr

datatype notification_type = Task_assigned | Workflow_update

text \<open>
  The title and message of a notification, by the template the source formats; the
  argument is the title of the task that the message quotes.
\<close>

datatype notification_text =
  Tarea_Disponible pystr
| Nueva_Tarea_Asignada pystr

record Notification =
  n_user :: pk
  n_expediente :: pk
  n_type :: notification_type
  n_text :: notification_text

text \<open>
  The tables. \<open>tareas_depende_de\<close> is the join table of the many-to-many field
  \<open>Task.depende_de\<close> (a row \<open>(t, d)\<close>: task \<open>t\<close> depends on task \<open>d\<close>);
  \<open>task_dependencies\<close> is the table of the model \<open>TaskDependency\<close>. A query without
  an \<open>order_by\<close> lists a table in the order of the list.
\<close>

record database =
  workflow_estados :: "WorkflowState list"
  departamentos :: "Department list"
  usuarios :: "User list"
  expedientes :: "Expediente list"
  workflow_transiciones :: "WorkflowTransition list"
  tareas :: "Task list"
  tareas_depende_de :: "(pk \<times> pk) list"
  task_dependencies :: "TaskDependency list"
  notificaciones :: "Notification list"

section \<open>Task (workflow/models.py)\<close>

text \<open>\<open>task.depende_de.all()\<close> and the reverse relation \<open>task.dependientes.all()\<close>.\<close>

definition depende_de_all :: "database \<Rightarrow> Task \<Rightarrow> Task list" where
  "depende_de_all db t =
     filter (\<lambda>d. (task_id t, task_id d) \<in> set (tareas_depende_de db)) (tareas db)"

definition dependientes_all :: "database \<Rightarrow> Task \<Rightarrow> Task list" where
  "dependientes_all db t =
     filter (\<lambda>d. (task_id d, task_id t) \<in> set (tareas_depende_de db)) (tareas db)"

text \<open>
  \<open>Task.can_be_started\<close>:
  \<^verbatim>\<open>return not self.depende_de.filter(estado__in=['pendiente', 'en_progreso']).exists()\<close>
\<close>

definition can_be_started :: "database \<Rightarrow> Task \<Rightarrow> bool" where
  "can_be_started db t =
     (filter (\<lambda>d. estado d = Pendiente \<or> estado d = En_progreso) (depende_de_all db t) = [])"

text \<open>
  \<open>Task.mark_as_completed\<close>, up to its \<open>self.save()\<close>, which is the \<open>save_task\<close> of
  \<open>TaskViewSet_complete\<close>.
\<close>

definition mark_as_completed :: "datetime \<Rightarrow> Task \<Rightarrow> pk \<Rightarrow> pystr \<Rightarrow> Task" where
  "mark_as_completed now t usuario res =
     t\<lparr>estado := Completada, fecha_completacion := Some now, resultado := res,
       usuario_asignado := Some usuario\<rparr>"

section \<open>The cycle check (workflow/views.py, workflow/serializers.py)\<close>

text \<open>
  \<open>_would_create_circular_dependency(task, dependency)\<close>, the same text in
  \<open>TaskViewSet\<close> and in \<open>TaskSerializer\<close>:
  \<^verbatim>\<open>
  visited = set()
  def check_dependencies(current_task):
      if current_task.id in visited:
          return True
      visited.add(current_task.id)
      for dep in current_task.depende_de.all():
          if dep.id == task.id or check_dependencies(dep):
              return True
      return False
  return check_dependencies(dependency)
  \<close>
  The set \<open>visited\<close> is shared by all the calls, so the model passes it in and returns it
  with the answer. \<open>check_dependencies_for\<close> is the \<open>for\<close> loop over the remaining
  dependencies. The loop goes on with \<open>visited \<union> visited'\<close>, where \<open>visited'\<close> is the
  set the inner call returns: the set only grows, so this is \<open>visited'\<close> itself (lemma
  \<open>check_dependencies_for_Cons\<close> states the loop with \<open>visited'\<close> alone).
\<close>

function check_dependencies :: "database \<Rightarrow> Task \<Rightarrow> pk set \<Rightarrow> Task \<Rightarrow> bool \<times> pk set"
  and check_dependencies_for :: "database \<Rightarrow> Task \<Rightarrow> pk set \<Rightarrow> Task list \<Rightarrow> bool \<times> pk set"
where
  "check_dependencies db task visited current_task =
     (if task_id current_task \<in> visited then (True, visited)
      else check_dependencies_for db task (insert (task_id current_task) visited)
             (depende_de_all db current_task))"
| "check_dependencies_for db task visited [] = (False, visited)"
| "check_dependencies_for db task visited (dep # deps) =
     (if task_id dep = task_id task then (True, visited)
      else (let (found, visited') = check_dependencies db task visited dep
            in if found then (True, visited')
               else check_dependencies_for db task (visited \<union> visited') deps))"
  by pat_completeness auto
termination
proof (relation "inv_image (less_than <*lex*> less_than)
    (\<lambda>x. case x of
       Inl (db, task, visited, cur) \<Rightarrow>
         (card ((task_id ` set (tareas db) \<union> {task_id cur}) - visited), 0)
     | Inr (db, task, visited, deps) \<Rightarrow>
         (card ((task_id ` set (tareas db) \<union> task_id ` set deps) - visited),
          Suc (length deps)))", goal_cases)
  case 1
  show ?case by auto
next
  case (2 db task visited current_task)
  let ?U = "task_id ` set (tareas db)"
  have sub: "task_id ` set (depende_de_all db current_task) \<subseteq> ?U"
    by (auto simp: depende_de_all_def)
  have "(?U \<union> task_id ` set (depende_de_all db current_task))
          - insert (task_id current_task) visited
        \<subset> (?U \<union> {task_id current_task}) - visited"
    using 2 sub by auto
  then have "card ((?U \<union> task_id ` set (depende_de_all db current_task))
          - insert (task_id current_task) visited)
        < card ((?U \<union> {task_id current_task}) - visited)"
    by (intro psubset_card_mono) auto
  then show ?case by simp
next
  case (3 db task visited dep deps)
  let ?U = "task_id ` set (tareas db)"
  have "card ((?U \<union> {task_id dep}) - visited)
        \<le> card ((?U \<union> task_id ` set (dep # deps)) - visited)"
    by (intro card_mono) auto
  then show ?case by auto
next
  case (4 db task visited dep deps x xa y)
  let ?U = "task_id ` set (tareas db)"
  have "card ((?U \<union> task_id ` set deps) - (visited \<union> y))
        \<le> card ((?U \<union> task_id ` set (dep # deps)) - visited)"
    by (intro card_mono) auto
  then show ?case by auto
qed

definition would_create_circular_dependency :: "database \<Rightarrow> Task \<Rightarrow> Task \<Rightarrow> bool" where
  "would_create_circular_dependency db task dependency =
     fst (check_dependencies db task {} dependency)"

section \<open>Errors and string constants\<close>

text \<open>
  The exceptions the modelled code raises. A \<open>ValidationError\<close> carries its message;
  \<open>DoesNotExist\<close> is a foreign key that names no row.
\<close>

datatype message =
  Expediente_y_estado_destino_son_requeridos
| No_se_puede_transicionar_al_mismo_estado
| El_departamento_destino_debe_ser_diferente
| El_motivo_de_rechazo_es_obligatorio
| Se_requiere_el_ID_de_la_tarea_de_la_que_depende
| Tarea_de_dependencia_no_encontrada
| Las_tareas_deben_pertenecer_al_mismo_expediente
| Esta_dependencia_crearia_un_ciclo_circular
| Una_tarea_no_puede_depender_de_si_misma
| La_dependencia_crearia_un_ciclo_circular_con pystr
| El_usuario_asignado_debe_pertenecer_al_departamento
| Se_requiere_el_ID_del_usuario
| Usuario_no_encontrado_o_inactivo
| El_usuario_debe_pertenecer_al_departamento

datatype error =
  ValidationError message
| PermissionDenied
| Http404
| KeyError
| IntegrityError
| DoesNotExist

definition s_completado :: pystr where
  "s_completado = str ''completado''"

definition s_rechazado :: pystr where
  "s_rechazado = str ''rechazado''"

definition s_en_apelacion :: pystr where
  "s_en_apelacion = str ''en apelaci'' @ [243] @ str ''n''"

definition s_revision :: pystr where
  "s_revision = str ''revisi'' @ [243] @ str ''n''"

definition s_transicion_automatica :: pystr where
  "s_transicion_automatica =
     str ''Transici'' @ [243] @ str ''n autom'' @ [225]
       @ str ''tica: Todas las tareas completadas''"

definition s_tarea_completada :: pystr where
  "s_tarea_completada = str ''Tarea completada''"

definition s_tarea_completada_automaticamente :: pystr where
  "s_tarea_completada_automaticamente =
     str ''Tarea completada autom'' @ [225] @ str ''ticamente''"

definition s_finish_to_start :: pystr where
  "s_finish_to_start = str ''finish_to_start''"

definition management_roles :: "pystr list" where
  "management_roles = [str ''department_head'', str ''supervisor'', str ''admin'']"

section \<open>Rows and saving\<close>

definition get_expediente :: "database \<Rightarrow> pk \<Rightarrow> Expediente option" where
  "get_expediente db i = find (\<lambda>e. exp_id e = i) (expedientes db)"

definition get_task :: "database \<Rightarrow> pk \<Rightarrow> Task option" where
  "get_task db i = find (\<lambda>t. task_id t = i) (tareas db)"

text \<open>
  \<open>instance.save()\<close>: the row with the instance's primary key is replaced; an instance
  whose key is in no row is inserted.
\<close>

definition save_expediente :: "database \<Rightarrow> Expediente \<Rightarrow> database" where
  "save_expediente db e =
     (if list_ex (\<lambda>x. exp_id x = exp_id e) (expedientes db)
      then db\<lparr>expedientes := map (\<lambda>x. if exp_id x = exp_id e then e else x) (expedientes db)\<rparr>
      else db\<lparr>expedientes := expedientes db @ [e]\<rparr>)"

definition save_task :: "database \<Rightarrow> Task \<Rightarrow> database" where
  "save_task db t =
     (if list_ex (\<lambda>x. task_id x = task_id t) (tareas db)
      then db\<lparr>tareas := map (\<lambda>x. if task_id x = task_id t then t else x) (tareas db)\<rparr>
      else db\<lparr>tareas := tareas db @ [t]\<rparr>)"

section \<open>WorkflowTransitionSerializer (workflow/serializers.py)\<close>

text \<open>
  The dictionary \<open>data\<close> (\<open>validated_data\<close>) of the serializer: a key that is absent is
  \<open>None\<close>. The related fields hold the instances the keys name. \<open>comentarios\<close> and
  \<open>motivo_rechazo\<close> are blank when absent.
\<close>

record transition_data =
  d_expediente :: "Expediente option"
  d_hacia_estado :: "WorkflowState option"
  d_hacia_departamento :: "Department option"
  d_usuario :: "pk option"
  d_comentarios :: pystr
  d_motivo_rechazo :: pystr


text \<open>
  The status of the expediente that \<open>create\<close> derives from the name of the target state
  (the \<open>if\<close>/\<open>elif\<close> chain of \<open>create\<close>), and the completion date it leaves.
\<close>

definition estado_actual_for :: "(pystr \<Rightarrow> pystr) \<Rightarrow> WorkflowState \<Rightarrow> estado_expediente" where
  "estado_actual_for lower hacia =
     (if lower (ws_name hacia) = s_completado then Completado
      else if lower (ws_name hacia) = s_rechazado then Rechazado
      else if lower (ws_name hacia) = s_en_apelacion then En_apelacion
      else if contains (lower (ws_name hacia)) s_revision then En_revision
      else Aprobado)"

definition fecha_completado_for ::
  "(pystr \<Rightarrow> pystr) \<Rightarrow> datetime \<Rightarrow> WorkflowState \<Rightarrow> datetime option \<Rightarrow> datetime option" where
  "fecha_completado_for lower now hacia old =
     (if lower (ws_name hacia) = s_completado then Some now else old)"

text \<open>
  \<open>WorkflowTransitionSerializer.create\<close>. \<open>validated_data['k']\<close> raises \<open>KeyError\<close> on an
  absent key. \<open>super().create\<close> inserts the transition row; the column
  \<open>hacia_departamento\<close> is not nullable, so the insert fails on \<open>None\<close> and the atomic
  block leaves the database as it was; past the insert, the test \<open>if hacia_departamento\<close>
  of the update is therefore true. The result is the new database and the transition.
\<close>

definition WorkflowTransitionSerializer_create ::
  "(pystr \<Rightarrow> pystr) \<Rightarrow> datetime \<Rightarrow> database \<Rightarrow> transition_data
     \<Rightarrow> error + (database \<times> WorkflowTransition)" where
  "WorkflowTransitionSerializer_create lower now db validated_data =
     (case d_expediente validated_data of
        None \<Rightarrow> Inl KeyError
      | Some expediente \<Rightarrow>
     (case d_hacia_estado validated_data of
        None \<Rightarrow> Inl KeyError
      | Some hacia \<Rightarrow>
     (case d_usuario validated_data of
        None \<Rightarrow> Inl KeyError
      | Some usuario \<Rightarrow>
     (case d_hacia_departamento validated_data of
        None \<Rightarrow> Inl IntegrityError
      | Some hacia_dep \<Rightarrow>
          let transition =
                \<lparr>tr_expediente = exp_id expediente,
                 desde_estado = Some (estado_workflow expediente),
                 hacia_estado = hacia,
                 desde_departamento = Some (departamento_actual expediente),
                 hacia_departamento = hacia_dep,
                 tr_usuario = usuario,
                 comentarios = d_comentarios validated_data,
                 motivo_rechazo = d_motivo_rechazo validated_data\<rparr>;
              db1 = db\<lparr>workflow_transiciones := workflow_transiciones db @ [transition]\<rparr>;
              expediente' =
                expediente\<lparr>estado_workflow := hacia,
                  departamento_actual := hacia_dep,
                  estado_actual := estado_actual_for lower hacia,
                  fecha_completado :=
                    fecha_completado_for lower now hacia (fecha_completado expediente)\<rparr>
          in Inr (save_expediente db1 expediente', transition)))))"


section \<open>ExpedienteViewSet: the queries (workflow/views.py)\<close>



section \<open>TaskSerializer (workflow/serializers.py)\<close>

text \<open>
  The validated data of a task update, for the fields the modelled code reads or writes:
  \<open>None\<close> is an absent key; \<open>v_usuario_asignado = Some None\<close> is the key present with the
  value \<open>null\<close>. The related fields hold the instances the keys name.
\<close>

record task_data =
  v_estado :: "estado_tarea option"
  v_resultado :: "pystr option"
  v_usuario_asignado :: "User option option"
  v_depende_de :: "Task list option"

text \<open>\<open>validate_usuario_asignado\<close>, run when the key is present.\<close>

definition validate_usuario_asignado :: "Task \<Rightarrow> User option \<Rightarrow> error option" where
  "validate_usuario_asignado instance v =
     (case v of
        None \<Rightarrow> None
      | Some u \<Rightarrow>
          if user_department u \<noteq> Some (task_departamento instance)
          then Some (ValidationError El_usuario_asignado_debe_pertenecer_al_departamento)
          else None)"

text \<open>\<open>validate_depende_de\<close>: the loop over the listed tasks, up to the first error.\<close>

fun validate_depende_de :: "database \<Rightarrow> Task \<Rightarrow> Task list \<Rightarrow> error option" where
  "validate_depende_de db instance [] = None"
| "validate_depende_de db instance (dep_task # rest) =
     (if task_id dep_task = task_id instance
      then Some (ValidationError Una_tarea_no_puede_depender_de_si_misma)
      else if would_create_circular_dependency db instance dep_task
      then Some (ValidationError (La_dependencia_crearia_un_ciclo_circular_con (titulo dep_task)))
      else validate_depende_de db instance rest)"

text \<open>
  \<open>instance.depende_de.set(value)\<close>, which \<open>super().update\<close> calls for the many-to-many
  key: the rows of the instance are replaced by one row for each listed task.
\<close>

definition depende_de_set :: "database \<Rightarrow> Task \<Rightarrow> Task list \<Rightarrow> database" where
  "depende_de_set db instance deps =
     db\<lparr>tareas_depende_de :=
          filter (\<lambda>r. fst r \<noteq> task_id instance) (tareas_depende_de db)
            @ map (\<lambda>d. (task_id instance, task_id d)) (remdups deps)\<rparr>"

text \<open>
  \<open>TaskSerializer.update\<close>: the completion date and the default result are added to the
  validated data when the task becomes completed, the assignment is cleared when it is
  cancelled, and \<open>super().update\<close> writes the keys of the validated data to the instance
  and saves it.
\<close>

definition TaskSerializer_update ::
  "datetime \<Rightarrow> database \<Rightarrow> Task \<Rightarrow> task_data \<Rightarrow> database \<times> Task" where
  "TaskSerializer_update now db instance validated_data =
     (let completing = (v_estado validated_data = Some Completada \<and> estado instance \<noteq> Completada);
          fecha = (if completing then Some now else fecha_completacion instance);
          res = (if completing
                      \<and> (v_resultado validated_data = None \<or> v_resultado validated_data = Some [])
                 then s_tarea_completada_automaticamente
                 else (case v_resultado validated_data of
                         None \<Rightarrow> resultado instance
                       | Some r \<Rightarrow> r));
          usuario = (if v_estado validated_data = Some Cancelada then None
                     else (case v_usuario_asignado validated_data of
                             None \<Rightarrow> usuario_asignado instance
                           | Some v \<Rightarrow> map_option user_id v));
          instance' = instance\<lparr>
            estado := (case v_estado validated_data of None \<Rightarrow> estado instance | Some s \<Rightarrow> s),
            fecha_completacion := fecha,
            resultado := res,
            usuario_asignado := usuario\<rparr>;
          db1 = save_task db instance'
      in (case v_depende_de validated_data of
            None \<Rightarrow> (db1, instance')
          | Some deps \<Rightarrow> (depende_de_set db1 instance' deps, instance')))"

section \<open>TaskViewSet (workflow/views.py)\<close>

text \<open>\<open>get_queryset\<close> for the requesting user, and \<open>get_object\<close> on it.\<close>

definition TaskViewSet_get_queryset :: "database \<Rightarrow> User \<Rightarrow> Task list" where
  "TaskViewSet_get_queryset db user =
     (if is_superuser user then tareas db
      else if user_role user \<in> set management_roles
      then filter (\<lambda>t. user_department user = Some (task_departamento t)) (tareas db)
      else filter (\<lambda>t. usuario_asignado t = Some (user_id user)
                        \<or> user_department user = Some (task_departamento t)) (tareas db))"

definition TaskViewSet_get_object :: "database \<Rightarrow> User \<Rightarrow> pk \<Rightarrow> Task option" where
  "TaskViewSet_get_object db user i =
     find (\<lambda>t. task_id t = i) (TaskViewSet_get_queryset db user)"

text \<open>
  \<open>_can_complete_task\<close>, \<open>_can_assign_task\<close> and \<open>_can_modify_dependencies\<close> have the same
  body.
\<close>

definition can_complete_task :: "User \<Rightarrow> Task \<Rightarrow> bool" where
  "can_complete_task user task =
     (if is_superuser user then True
      else if user_role user \<in> set management_roles
      then user_department user = Some (task_departamento task)
      else usuario_asignado task = Some (user_id user))"


definition can_modify_dependencies :: "User \<Rightarrow> Task \<Rightarrow> bool" where
  "can_modify_dependencies user task =
     (if is_superuser user then True
      else if user_role user \<in> set management_roles
      then user_department user = Some (task_departamento task)
      else usuario_asignado task = Some (user_id user))"

text \<open>\<open>_check_dependent_tasks\<close>: the loop over \<open>completed_task.dependientes.all()\<close>.\<close>

fun check_dependent_tasks_for :: "database \<Rightarrow> Task list \<Rightarrow> database" where
  "check_dependent_tasks_for db [] = db"
| "check_dependent_tasks_for db (dependent # rest) =
     check_dependent_tasks_for
       (if can_be_started db dependent \<and> estado dependent = Pendiente
        then (case usuario_asignado dependent of
                None \<Rightarrow> db
              | Some u \<Rightarrow>
                  db\<lparr>notificaciones := notificaciones db @
                       [\<lparr>n_user = u, n_expediente = task_expediente dependent,
                         n_type = Task_assigned,
                         n_text = Tarea_Disponible (titulo dependent)\<rparr>]\<rparr>)
        else db)
       rest"

definition check_dependent_tasks :: "database \<Rightarrow> Task \<Rightarrow> database" where
  "check_dependent_tasks db completed_task =
     check_dependent_tasks_for db (dependientes_all db completed_task)"

text \<open>
  \<open>_check_expediente_completion\<close>. \<open>first\<close> is the queryset's \<open>.first()\<close>.
\<close>

definition first :: "'a list \<Rightarrow> 'a option" where
  "first xs = (case xs of [] \<Rightarrow> None | x # _ \<Rightarrow> Some x)"

definition check_expediente_completion :: "database \<Rightarrow> Expediente \<Rightarrow> database" where
  "check_expediente_completion db expediente =
     (let pending_tasks =
            length (filter (\<lambda>t. task_expediente t = exp_id expediente
                                \<and> (estado t = Pendiente \<or> estado t = En_progreso)) (tareas db))
      in if pending_tasks = 0
         then (let current_state = estado_workflow expediente
               in if \<not> ws_is_final current_state
                  then (case first (sort_key ws_order
                                (filter (\<lambda>s. ws_order current_state < ws_order s)
                                   (workflow_estados db))) of
                          None \<Rightarrow> db
                        | Some next_state \<Rightarrow>
                            save_expediente
                              (db\<lparr>workflow_transiciones := workflow_transiciones db @
                                   [\<lparr>tr_expediente = exp_id expediente,
                                     desde_estado = Some current_state,
                                     hacia_estado = next_state,
                                     desde_departamento = Some (departamento_actual expediente),
                                     hacia_departamento = departamento_actual expediente,
                                     tr_usuario = creado_por expediente,
                                     comentarios = s_transicion_automatica,
                                     motivo_rechazo = []\<rparr>]\<rparr>)
                              (expediente\<lparr>estado_workflow := next_state\<rparr>))
                  else db)
         else db)"

text \<open>
  The action \<open>complete\<close>. \<open>request.data.get('resultado', _('Tarea completada'))\<close> is the
  request's result, or the default when the key is absent. \<open>task.expediente\<close> reads the
  row the foreign key names.
\<close>

definition TaskViewSet_complete ::
  "datetime \<Rightarrow> database \<Rightarrow> User \<Rightarrow> pk \<Rightarrow> pystr option \<Rightarrow> error + database" where
  "TaskViewSet_complete now db user i request_resultado =
     (case TaskViewSet_get_object db user i of
        None \<Rightarrow> Inl Http404
      | Some task \<Rightarrow>
          if \<not> can_complete_task user task then Inl PermissionDenied
          else (let res = (case request_resultado of
                             None \<Rightarrow> s_tarea_completada
                           | Some r \<Rightarrow> r);
                    task' = mark_as_completed now task (user_id user) res;
                    db1 = save_task db task';
                    db2 = check_dependent_tasks db1 task'
                in (case get_expediente db2 (task_expediente task') of
                      None \<Rightarrow> Inl DoesNotExist
                    | Some expediente \<Rightarrow> Inr (check_expediente_completion db2 expediente))))"


text \<open>
  The action \<open>add_dependency\<close>. \<open>get_or_create\<close> inserts the \<open>TaskDependency\<close> row unless
  a row for the pair exists; the dependency type is the request's, or
  \<open>finish_to_start\<close> when the key is absent.
\<close>

definition TaskViewSet_add_dependency ::
  "database \<Rightarrow> User \<Rightarrow> pk \<Rightarrow> pk option \<Rightarrow> pystr option \<Rightarrow> error + database" where
  "TaskViewSet_add_dependency db user i depends_on_id request_dependency_type =
     (case TaskViewSet_get_object db user i of
        None \<Rightarrow> Inl Http404
      | Some task \<Rightarrow>
          if \<not> can_modify_dependencies user task then Inl PermissionDenied
          else if depends_on_id = None \<or> depends_on_id = Some 0
          then Inl (ValidationError Se_requiere_el_ID_de_la_tarea_de_la_que_depende)
          else (case find (\<lambda>t. Some (task_id t) = depends_on_id) (tareas db) of
                  None \<Rightarrow> Inl (ValidationError Tarea_de_dependencia_no_encontrada)
                | Some depends_on_task \<Rightarrow>
                    if task_expediente task \<noteq> task_expediente depends_on_task
                    then Inl (ValidationError Las_tareas_deben_pertenecer_al_mismo_expediente)
                    else if would_create_circular_dependency db task depends_on_task
                    then Inl (ValidationError Esta_dependencia_crearia_un_ciclo_circular)
                    else if list_ex (\<lambda>r. td_task r = task_id task
                                         \<and> td_depends_on r = task_id depends_on_task)
                              (task_dependencies db)
                    then Inr db
                    else Inr (db\<lparr>task_dependencies := task_dependencies db @
                                [\<lparr>td_task = task_id task,
                                  td_depends_on = task_id depends_on_task,
                                  dependency_type =
                                    (case request_dependency_type of
                                       None \<Rightarrow> s_finish_to_start
                                     | Some ty \<Rightarrow> ty)\<rparr>]\<rparr>)))"

section \<open>The operations of the engine\<close>








section \<open>Concrete data\<close>

definition superuser :: User where
  "superuser = \<lparr>user_id = 1, is_superuser = True, user_role = str ''admin'',
                user_department = None, user_is_active = True\<rparr>"

definition mk_state :: "pk \<Rightarrow> pystr \<Rightarrow> bool \<Rightarrow> nat \<Rightarrow> WorkflowState" where
  "mk_state i name final ord = \<lparr>ws_id = i, ws_name = name, ws_is_final = final, ws_order = ord\<rparr>"

definition mk_dept :: "pk \<Rightarrow> pystr \<Rightarrow> nat \<Rightarrow> bool \<Rightarrow> Department" where
  "mk_dept i code ord active =
     \<lparr>dept_id = i, dept_name = code, dept_code = code, dept_workflow_order = ord,
      dept_response_time_hours = 48, dept_is_active = active\<rparr>"

definition mk_task :: "pk \<Rightarrow> pk \<Rightarrow> estado_tarea \<Rightarrow> Task" where
  "mk_task i expediente st =
     \<lparr>task_id = i, task_expediente = expediente, task_departamento = 1,
      usuario_asignado = None, titulo = [], estado = st, fecha_completacion = None,
      resultado = []\<rparr>"

definition mk_expediente :: "pk \<Rightarrow> Department \<Rightarrow> WorkflowState \<Rightarrow> Expediente" where
  "mk_expediente i dep st =
     \<lparr>exp_id = i, numero_expediente = [], estado_actual = Iniciado,
      departamento_actual = dep, estado_workflow = st, creado_por = 1,
      fecha_completado = None\<rparr>"

definition empty_db :: database where
  "empty_db = \<lparr>workflow_estados = [], departamentos = [], usuarios = [], expedientes = [],
               workflow_transiciones = [], tareas = [], tareas_depende_de = [],
               task_dependencies = [], notificaciones = []\<rparr>"

definition st_inicio :: WorkflowState where
  "st_inicio = mk_state 1 (str ''Inicio'') False 1"

definition st_rechazado :: WorkflowState where
  "st_rechazado = mk_state 2 (str ''Rechazado'') False 2"

definition st_completado :: WorkflowState where
  "st_completado = mk_state 3 (str ''Completado'') True 3"

definition st_archivado :: WorkflowState where
  "st_archivado = mk_state 4 (str ''Archivado'') True 4"

definition st_apelacion :: WorkflowState where
  "st_apelacion = mk_state 5 (str ''En Apelaci'' @ [243] @ str ''n'') False 5"

definition dept1 :: Department where
  "dept1 = mk_dept 1 (str ''LEGAL'') 1 True"

definition dept2 :: Department where
  "dept2 = mk_dept 2 (str ''TECNICO'') 2 True"

definition exp1 :: Expediente where
  "exp1 = mk_expediente 1 dept1 st_inicio"


definition db0 :: database where
  "db0 = empty_db\<lparr>workflow_estados :=
                    [st_apelacion, st_inicio, st_rechazado, st_completado, st_archivado],
                  departamentos := [dept1, dept2], usuarios := [superuser],
                  expedientes := [exp1]\<rparr>"

definition task_a :: Task where
  "task_a = mk_task 1 1 Pendiente"

definition task_b :: Task where
  "task_b = (mk_task 2 1 Pendiente)\<lparr>usuario_asignado := Some 7\<rparr>"

definition db_tasks :: database where
  "db_tasks = db0\<lparr>tareas := [task_a, task_b], tareas_depende_de := [(2, 1)]\<rparr>"

definition complete_data :: task_data where
  "complete_data = \<lparr>v_estado = Some Completada, v_resultado = None,
                     v_usuario_asignado = None, v_depende_de = None\<rparr>"

definition transition_to :: "WorkflowState \<Rightarrow> Department \<Rightarrow> pystr \<Rightarrow> transition_data" where
  "transition_to hacia dep motivo =
     \<lparr>d_expediente = Some exp1, d_hacia_estado = Some hacia, d_hacia_departamento = Some dep,
      d_usuario = Some 1, d_comentarios = [], d_motivo_rechazo = motivo\<rparr>"



fun add_dependencies :: "database \<Rightarrow> (pk \<times> pk) list \<Rightarrow> error + database" where
  "add_dependencies db [] = Inr db"
| "add_dependencies db ((t, d) # rest) =
     (case TaskViewSet_add_dependency db superuser t (Some d) None of
        Inl e \<Rightarrow> Inl e
      | Inr db' \<Rightarrow> add_dependencies db' rest)"

text \<open>Two and four pending tasks of expediente 1, with no dependency.\<close>

definition db_two :: database where
  "db_two = db0\<lparr>tareas := [mk_task 1 1 Pendiente, mk_task 2 1 Pendiente]\<rparr>"

definition db_four :: database where
  "db_four = db0\<lparr>tareas := [mk_task 1 1 Pendiente, mk_task 2 1 Pendiente,
                            mk_task 3 1 Pendiente, mk_task 4 1 Pendiente]\<rparr>"

text \<open>
  The diamond stored in the many-to-many table: tasks 2 and 3 depend on task 1, task 4 on
  tasks 2 and 3.
\<close>

definition db_diamond :: database where
  "db_diamond = db_four\<lparr>tareas_depende_de := [(2, 1), (3, 1), (4, 2), (4, 3)]\<rparr>"

text \<open>
  Expediente 1 in the state \<open>Inicio\<close> with one pending task, the only later state being
  \<open>Completado\<close>.
\<close>

definition db_last_task :: database where
  "db_last_task = db0\<lparr>workflow_estados := [st_inicio, st_completado], tareas := [task_a]\<rparr>"

text \<open>Task 1 depends on a cancelled task and on a blocked one.\<close>

definition db_dep_cancelled :: database where
  "db_dep_cancelled =
     db0\<lparr>tareas := [task_a, mk_task 2 1 Cancelada, mk_task 3 1 Bloqueada],
         tareas_depende_de := [(1, 2), (1, 3)]\<rparr>"

section \<open>Facts about rows and saving\<close>

lemmas base_defs = st_inicio_def st_rechazado_def st_completado_def st_archivado_def
  st_apelacion_def dept1_def dept2_def exp1_def db0_def mk_state_def mk_dept_def
  mk_expediente_def mk_task_def empty_db_def superuser_def str_def ascii_lower_def
  s_completado_def s_rechazado_def s_en_apelacion_def s_revision_def

lemma find_map_replace:
  "find (\<lambda>x. exp_id x = i) (map (\<lambda>x. if exp_id x = exp_id e then e else x) xs) =
     (if i = exp_id e then (if list_ex (\<lambda>x. exp_id x = exp_id e) xs then Some e else None)
      else find (\<lambda>x. exp_id x = i) xs)"
  by (induction xs) auto

lemma find_append_new:
  "\<not> list_ex (\<lambda>x. exp_id x = exp_id e) xs \<Longrightarrow>
   find (\<lambda>x. exp_id x = i) (xs @ [e]) =
     (if i = exp_id e then Some e else find (\<lambda>x. exp_id x = i) xs)"
  by (induction xs) auto

lemma get_expediente_save_expediente:
  "get_expediente (save_expediente db e) i =
     (if i = exp_id e then Some e else get_expediente db i)"
  by (simp add: get_expediente_def save_expediente_def find_map_replace find_append_new)

lemma save_expediente_other_tables:
  "workflow_transiciones (save_expediente db e) = workflow_transiciones db"
  "tareas (save_expediente db e) = tareas db"
  "notificaciones (save_expediente db e) = notificaciones db"
  "tareas_depende_de (save_expediente db e) = tareas_depende_de db"
  "task_dependencies (save_expediente db e) = task_dependencies db"
  "workflow_estados (save_expediente db e) = workflow_estados db"
  "departamentos (save_expediente db e) = departamentos db"
  by (simp_all add: save_expediente_def)

section \<open>Transitions\<close>

text \<open>
  Claim C3. Whenever \<open>WorkflowTransitionSerializer.create\<close> succeeds, the transition row it
  appends carries as its from-state and from-department the state and department of the
  expediente it was called with; the saved expediente then has the target state as its
  workflow state and the target department as its department (a success always has one:
  the column is not nullable), and its status is derived from the lower-cased name of
  the target state: \<open>completado\<close> gives \<open>completado\<close> and stamps the completion date
  with the current time, \<open>rechazado\<close> gives \<open>rechazado\<close>, \<open>en apelacion\<close> (its second \<open>o\<close> accented) gives
  \<open>en_apelacion\<close>, a name that contains \<open>revision\<close> (its \<open>o\<close> accented) gives \<open>en_revision\<close>, and any other
  name gives \<open>aprobado\<close>; the completion date is otherwise left as it was.
\<close>

theorem transition_effects:
  assumes "WorkflowTransitionSerializer_create lower now db validated_data = Inr (db', transition)"
  shows "\<exists>expediente hacia hacia_dep expediente'.
           d_expediente validated_data = Some expediente
         \<and> d_hacia_estado validated_data = Some hacia
         \<and> d_hacia_departamento validated_data = Some hacia_dep
         \<and> workflow_transiciones db' = workflow_transiciones db @ [transition]
         \<and> tr_expediente transition = exp_id expediente
         \<and> desde_estado transition = Some (estado_workflow expediente)
         \<and> desde_departamento transition = Some (departamento_actual expediente)
         \<and> hacia_estado transition = hacia
         \<and> hacia_departamento transition = hacia_dep
         \<and> get_expediente db' (exp_id expediente) = Some expediente'
         \<and> estado_workflow expediente' = hacia
         \<and> departamento_actual expediente' = hacia_dep
         \<and> estado_actual expediente' =
             (if lower (ws_name hacia) = s_completado then Completado
              else if lower (ws_name hacia) = s_rechazado then Rechazado
              else if lower (ws_name hacia) = s_en_apelacion then En_apelacion
              else if contains (lower (ws_name hacia)) s_revision then En_revision
              else Aprobado)
         \<and> fecha_completado expediente' =
             (if lower (ws_name hacia) = s_completado then Some now
              else fecha_completado expediente)"
  using assms
  by (auto simp: WorkflowTransitionSerializer_create_def Let_def get_expediente_save_expediente
        save_expediente_other_tables estado_actual_for_def fecha_completado_for_def
      split: option.splits)

theorem transition_effects_witness:
  "\<exists>db' transition expediente'.
      WorkflowTransitionSerializer_create ascii_lower 5 db0 (transition_to st_completado dept2 [])
        = Inr (db', transition)
    \<and> desde_estado transition = Some st_inicio
    \<and> desde_departamento transition = Some dept1
    \<and> get_expediente db' 1 = Some expediente'
    \<and> estado_workflow expediente' = st_completado
    \<and> departamento_actual expediente' = dept2
    \<and> estado_actual expediente' = Completado
    \<and> fecha_completado expediente' = Some 5"
proof -
  obtain db' transition where h:
    "WorkflowTransitionSerializer_create ascii_lower 5 db0 (transition_to st_completado dept2 [])
       = Inr (db', transition)"
    by (simp add: WorkflowTransitionSerializer_create_def transition_to_def Let_def)
  from transition_effects[OF h] show ?thesis
    using h by (simp add: base_defs transition_to_def)
qed



section \<open>Updating a task to completed\<close>

lemma find_map_replace_task:
  "find (\<lambda>x. task_id x = i) (map (\<lambda>x. if task_id x = task_id t then t else x) xs) =
     (if i = task_id t then (if list_ex (\<lambda>x. task_id x = task_id t) xs then Some t else None)
      else find (\<lambda>x. task_id x = i) xs)"
  by (induction xs) auto

lemma find_append_new_task:
  "\<not> list_ex (\<lambda>x. task_id x = task_id t) xs \<Longrightarrow>
   find (\<lambda>x. task_id x = i) (xs @ [t]) =
     (if i = task_id t then Some t else find (\<lambda>x. task_id x = i) xs)"
  by (induction xs) auto

lemma get_task_save_task:
  "get_task (save_task db t) i = (if i = task_id t then Some t else get_task db i)"
  by (simp add: get_task_def save_task_def find_map_replace_task find_append_new_task)

lemma save_task_other_tables:
  "workflow_transiciones (save_task db t) = workflow_transiciones db"
  "expedientes (save_task db t) = expedientes db"
  "notificaciones (save_task db t) = notificaciones db"
  "tareas_depende_de (save_task db t) = tareas_depende_de db"
  "task_dependencies (save_task db t) = task_dependencies db"
  "workflow_estados (save_task db t) = workflow_estados db"
  "departamentos (save_task db t) = departamentos db"
  "usuarios (save_task db t) = usuarios db"
  by (simp_all add: save_task_def)

lemmas run_defs = TaskViewSet_complete_def TaskViewSet_get_object_def TaskViewSet_get_queryset_def
  can_complete_task_def mark_as_completed_def save_task_def check_dependent_tasks_def
  dependientes_all_def depende_de_all_def can_be_started_def get_expediente_def
  check_expediente_completion_def first_def save_expediente_def Let_def

text \<open>
  Claim C10. \<open>TaskSerializer.update\<close> with \<open>estado = completada\<close> on a task that is not yet
  completed stamps the completion date with the current time and stores the request's
  result, or the default result text when the request has none or an empty one. It
  writes the task row and nothing else: no notification is created, no expediente is
  changed and no transition is appended. The witness runs it on a task whose completion
  through the action \<open>complete\<close> does notify the dependent task's assignee.
\<close>

theorem generic_update_completes_without_cascade:
  assumes "v_estado validated_data = Some Completada"
    and "estado instance \<noteq> Completada"
    and "TaskSerializer_update now db instance validated_data = (db', instance')"
  shows "estado instance' = Completada
       \<and> fecha_completacion instance' = Some now
       \<and> resultado instance' =
           (case v_resultado validated_data of
              None \<Rightarrow> s_tarea_completada_automaticamente
            | Some r \<Rightarrow> if r = [] then s_tarea_completada_automaticamente else r)
       \<and> get_task db' (task_id instance) = Some instance'
       \<and> notificaciones db' = notificaciones db
       \<and> expedientes db' = expedientes db
       \<and> workflow_transiciones db' = workflow_transiciones db"
  using assms
  by (auto simp: TaskSerializer_update_def Let_def depende_de_set_def get_task_def
        get_task_save_task[unfolded get_task_def] save_task_other_tables
      split: option.splits)

theorem generic_update_completes_without_cascade_witness:
  "v_estado complete_data = Some Completada
   \<and> estado task_a \<noteq> Completada
   \<and> fecha_completacion (snd (TaskSerializer_update 9 db_tasks task_a complete_data)) = Some 9
   \<and> resultado (snd (TaskSerializer_update 9 db_tasks task_a complete_data))
       = s_tarea_completada_automaticamente
   \<and> notificaciones (fst (TaskSerializer_update 9 db_tasks task_a complete_data)) = []
   \<and> workflow_transiciones (fst (TaskSerializer_update 9 db_tasks task_a complete_data)) = []
   \<and> (case TaskViewSet_complete 9 db_tasks superuser 1 None of
         Inl e \<Rightarrow> False
       | Inr db' \<Rightarrow> map n_user (notificaciones db') = [7])"
proof -
  have h1: "v_estado complete_data = Some Completada" by (simp add: complete_data_def)
  have h2: "estado task_a \<noteq> Completada" by (simp add: task_a_def mk_task_def)
  have h3: "TaskSerializer_update 9 db_tasks task_a complete_data
      = (fst (TaskSerializer_update 9 db_tasks task_a complete_data),
         snd (TaskSerializer_update 9 db_tasks task_a complete_data))"
    by simp
  have c: "(case TaskViewSet_complete 9 db_tasks superuser 1 None of
         Inl e \<Rightarrow> False
       | Inr db' \<Rightarrow> map n_user (notificaciones db') = [7])"
    by (simp add: run_defs base_defs task_a_def task_b_def db_tasks_def complete_data_def)
  from generic_update_completes_without_cascade[OF h1 h2 h3] h1 h2 c
  show ?thesis by (simp add: complete_data_def db_tasks_def db0_def empty_db_def)
qed

section \<open>The next states and departments\<close>

lemma take3_length: "length (take 3 xs) \<le> 3"
  by simp













section \<open>The visited set of the cycle check\<close>

text \<open>
  The set of visited tasks only grows, so the loop of \<open>check_dependencies\<close> goes on with
  the set the inner call returns, as the source's shared set does.
\<close>

lemma check_dependencies_visited_mono:
  "visited \<subseteq> snd (check_dependencies db task visited cur)"
  "visited \<subseteq> snd (check_dependencies_for db task visited deps)"
proof (induction db task visited cur and db task visited deps
    rule: check_dependencies_check_dependencies_for.induct)
  case (1 db task visited current_task)
  then show ?case by auto
next
  case (2 db task visited)
  then show ?case by simp
next
  case (3 db task visited dep deps)
  show ?case
  proof (cases "task_id dep = task_id task")
    case True
    then show ?thesis by simp
  next
    case False
    obtain found visited' where c: "check_dependencies db task visited dep = (found, visited')"
      by (cases "check_dependencies db task visited dep")
    show ?thesis
    proof (cases found)
      case True
      with False c 3(1) show ?thesis by simp
    next
      case nf: False
      from 3(2)[OF False c[symmetric] refl nf]
      have "visited \<union> visited' \<subseteq> snd (check_dependencies_for db task (visited \<union> visited') deps)" .
      with False c nf show ?thesis by auto
    qed
  qed
qed

lemma check_dependencies_for_Cons:
  "check_dependencies_for db task visited (dep # deps) =
     (if task_id dep = task_id task then (True, visited)
      else (let (found, visited') = check_dependencies db task visited dep
            in if found then (True, visited')
               else check_dependencies_for db task visited' deps))"
proof -
  have "visited \<union> snd (check_dependencies db task visited dep)
          = snd (check_dependencies db task visited dep)"
    using check_dependencies_visited_mono(1)[of visited db task dep] by blast
  then show ?thesis
    by (simp add: case_prod_unfold Let_def)
qed

section \<open>Dependencies added through \<open>add_dependency\<close>\<close>

lemmas add_defs = TaskViewSet_add_dependency_def TaskViewSet_get_object_def
  TaskViewSet_get_queryset_def can_modify_dependencies_def would_create_circular_dependency_def
  depende_de_all_def s_finish_to_start_def Let_def

text \<open>
  Claim C1 asks that, for two tasks of one expediente with no dependency,
  \<open>add_dependency(A, B)\<close> followed by \<open>add_dependency(B, A)\<close> fails on the second call.
  The action does not: it stores its edges as \<open>TaskDependency\<close> rows, and the cycle check
  it runs reads \<open>depende_de\<close>, which the action never writes. Both calls succeed and both
  rows are stored.
\<close>

theorem add_dependency_accepts_back_edge:
  "(case add_dependencies db_two [(1, 2), (2, 1)] of
      Inl e \<Rightarrow> False
    | Inr db' \<Rightarrow>
        map (\<lambda>r. (td_task r, td_depends_on r)) (task_dependencies db') = [(1, 2), (2, 1)])"
  by (simp add: add_defs base_defs db_two_def)

text \<open>
  Claim C2 asks that a \<open>TaskDependency\<close> row \<open>(T, D)\<close> exists exactly when \<open>D\<close> is among
  the tasks \<open>T\<close> depends on, so that an edge added through \<open>add_dependency\<close> is seen by the
  cycle check and by \<open>can_be_started\<close>. After \<open>add_dependency(1, 2)\<close> the row exists and
  \<open>depende_de\<close> is still empty: task 1 can be started although task 2 is pending, and the
  cycle check finds nothing against the reverse edge.
\<close>

theorem add_dependency_row_not_in_depende_de:
  "(case TaskViewSet_add_dependency db_two superuser 1 (Some 2) None of
      Inl e \<Rightarrow> False
    | Inr db' \<Rightarrow>
        map (\<lambda>r. (td_task r, td_depends_on r)) (task_dependencies db') = [(1, 2)]
      \<and> tareas_depende_de db' = []
      \<and> depende_de_all db' (mk_task 1 1 Pendiente) = []
      \<and> map estado (tareas db') = [Pendiente, Pendiente]
      \<and> can_be_started db' (mk_task 1 1 Pendiente)
      \<and> \<not> would_create_circular_dependency db' (mk_task 2 1 Pendiente) (mk_task 1 1 Pendiente))"
  by (simp add: add_defs can_be_started_def base_defs db_two_def)

text \<open>
  Claim C7 asks that the diamond (4 depends on 2 and 3, each of which depends on 1) is
  accepted and that \<open>add_dependency(1, 4)\<close> then fails. Through the action all five calls
  succeed, the last one as well, for the reason given under C1.
\<close>

theorem add_dependency_accepts_cycle_through_diamond:
  "(case add_dependencies db_four [(2, 1), (3, 1), (4, 2), (4, 3), (1, 4)] of
      Inl e \<Rightarrow> False
    | Inr db' \<Rightarrow>
        map (\<lambda>r. (td_task r, td_depends_on r)) (task_dependencies db')
          = [(2, 1), (3, 1), (4, 2), (4, 3), (1, 4)])"
  by (simp add: add_defs base_defs db_four_def)

text \<open>
  On a diamond stored in \<open>depende_de\<close> itself (the table the serializer's
  \<open>validate_depende_de\<close> guards) the check does answer that task 1 depending on task 4
  closes a cycle. It also answers so for a task outside the diamond that would depend on
  task 4: task 1 is reached twice, and a second visit is reported as a cycle.
\<close>

lemma cycle_check_on_stored_diamond:
  "would_create_circular_dependency db_diamond (mk_task 1 1 Pendiente) (mk_task 4 1 Pendiente)"
  "validate_depende_de db_diamond (mk_task 1 1 Pendiente) [mk_task 4 1 Pendiente]
     = Some (ValidationError (La_dependencia_crearia_un_ciclo_circular_con []))"
  by (simp_all add: would_create_circular_dependency_def depende_de_all_def Let_def base_defs db_four_def db_diamond_def)

lemma cycle_check_reports_diamond_below:
  "would_create_circular_dependency db_diamond (mk_task 5 1 Pendiente) (mk_task 4 1 Pendiente)"
  by (simp add: would_create_circular_dependency_def depende_de_all_def Let_def base_defs db_four_def db_diamond_def)

section \<open>Readiness of a task\<close>

lemma can_be_started_iff:
  "can_be_started db t \<longleftrightarrow>
     (\<forall>d \<in> set (depende_de_all db t). estado d \<noteq> Pendiente \<and> estado d \<noteq> En_progreso)"
  by (auto simp: can_be_started_def filter_empty_conv)

text \<open>
  Claim C6 asks that \<open>can_be_started\<close> is true exactly when every direct dependency is
  completed, whatever the statuses. It is true as soon as no dependency is pending or in
  progress: here task 1 depends on a cancelled task and on a blocked one, none of them
  completed, and can be started.
\<close>

theorem can_be_started_with_unfinished_dependencies:
  "can_be_started db_dep_cancelled task_a
   \<and> map estado (depende_de_all db_dep_cancelled task_a) = [Cancelada, Bloqueada]"
  by (simp add: can_be_started_def depende_de_all_def base_defs task_a_def db_dep_cancelled_def)

section \<open>The automatic transition\<close>

text \<open>
  Claim C5 asks that completing the last open task of an expediente in a non-final state
  makes one automatic transition to the next state, in the same department, by the
  creator, with the fixed comment, through the same path as a proposed transition, with
  the same effect on the status. The transition is made, but \<open>_check_expediente_completion\<close>
  writes the row and the workflow state itself: the status and the completion date stay
  as they were, where \<open>WorkflowTransitionSerializer.create\<close> to the same state sets the
  status \<open>completado\<close> and the completion date.
\<close>

theorem automatic_transition_leaves_status:
  "(case TaskViewSet_complete 9 db_last_task superuser 1 None of
      Inl e \<Rightarrow> False
    | Inr db' \<Rightarrow>
        map hacia_estado (workflow_transiciones db') = [st_completado]
      \<and> map hacia_departamento (workflow_transiciones db') = [dept1]
      \<and> map comentarios (workflow_transiciones db') = [s_transicion_automatica]
      \<and> (case get_expediente db' 1 of
            None \<Rightarrow> False
          | Some e \<Rightarrow> estado_workflow e = st_completado \<and> estado_actual e = Iniciado
                       \<and> fecha_completado e = None))
   \<and> (case WorkflowTransitionSerializer_create ascii_lower 9 db_last_task
              (transition_to st_completado dept1 []) of
         Inl e \<Rightarrow> False
       | Inr (db', transition) \<Rightarrow>
           (case get_expediente db' 1 of
              None \<Rightarrow> False
            | Some e \<Rightarrow> estado_workflow e = st_completado \<and> estado_actual e = Completado
                         \<and> fecha_completado e = Some 9))"
  by (simp add: run_defs WorkflowTransitionSerializer_create_def estado_actual_for_def
        fecha_completado_for_def base_defs task_a_def db_last_task_def transition_to_def)

section \<open>The completion date\<close>





lemma add_dependency_depende_de:
  "TaskViewSet_add_dependency db user i d ty = Inr db' \<Longrightarrow>
     tareas_depende_de db' = tareas_depende_de db \<and> tareas db' = tareas db"
  by (auto simp: TaskViewSet_add_dependency_def split: option.splits if_splits)

















end
